theory Spec2Isabelle
  imports Main "HOL-Library.Log_Nat"
begin

section \<open>JavaScript numbers\<close>

text \<open>
  The order controller computes money with the JavaScript \<open>number\<close> type
  (\<open>let subtotal = 0\<close>, \<open>Number(product.price)\<close>, \<open>Number(unitPrice) * quantity\<close>,
  \<open>subtotal += itemSubtotal\<close>, \<open>subtotal + deliveryFee\<close>), that is IEEE-754 binary64:
  a finite value is a rational with a 53-bit significand, every operation returns the
  exact result rounded to the nearest such value, ties to the even significand.
  The two zeros are identified; nothing below distinguishes them.
\<close>

datatype number = Fin rat | PosInf | NegInf | NaN

definition pow2 :: "int \<Rightarrow> rat" where
  "pow2 e = (if 0 \<le> e then 2 ^ nat e else 1 / 2 ^ nat (- e))"

definition binade :: "rat \<Rightarrow> int" where
  \<comment> \<open>for \<open>0 < a\<close>: the exponent \<open>e\<close> with \<open>2^e \<le> a < 2^(e+1)\<close>\<close>
  "binade a =
     (let k = bitlen (fst (quotient_of a)) - bitlen (snd (quotient_of a))
      in if pow2 k \<le> a then k else k - 1)"

definition round_half_even :: "rat \<Rightarrow> int" where
  "round_half_even r =
     (let f = \<lfloor>r\<rfloor>; d = r - of_int f
      in if d < 1 / 2 then f
         else if 1 / 2 < d then f + 1
         else if even f then f else f + 1)"

definition binary64 :: "rat \<Rightarrow> number" where
  \<comment> \<open>round to nearest, ties to even; precision 53, exponents \<open>-1074 .. 971\<close> of the unit
      in the last place, overflow to the infinities\<close>
  "binary64 x =
     (if x = 0 then Fin 0
      else let a = \<bar>x\<bar>;
               q = max (binade a - 52) (- 1074);
               y = of_int (round_half_even (a / pow2 q)) * pow2 q
           in if 1024 \<le> binade y then (if 0 < x then PosInf else NegInf)
              else Fin (if 0 < x then y else - y))"

fun js_add :: "number \<Rightarrow> number \<Rightarrow> number" where
  "js_add (Fin a) (Fin b) = binary64 (a + b)"
| "js_add NaN _ = NaN"
| "js_add _ NaN = NaN"
| "js_add PosInf NegInf = NaN"
| "js_add NegInf PosInf = NaN"
| "js_add PosInf _ = PosInf"
| "js_add _ PosInf = PosInf"
| "js_add NegInf _ = NegInf"
| "js_add _ NegInf = NegInf"

fun js_mul :: "number \<Rightarrow> number \<Rightarrow> number" where
  "js_mul (Fin a) (Fin b) = binary64 (a * b)"
| "js_mul NaN _ = NaN"
| "js_mul _ NaN = NaN"
| "js_mul PosInf (Fin b) = (if b = 0 then NaN else if 0 < b then PosInf else NegInf)"
| "js_mul NegInf (Fin b) = (if b = 0 then NaN else if 0 < b then NegInf else PosInf)"
| "js_mul (Fin a) PosInf = (if a = 0 then NaN else if 0 < a then PosInf else NegInf)"
| "js_mul (Fin a) NegInf = (if a = 0 then NaN else if 0 < a then NegInf else PosInf)"
| "js_mul PosInf PosInf = PosInf"
| "js_mul NegInf NegInf = PosInf"
| "js_mul PosInf NegInf = NegInf"
| "js_mul NegInf PosInf = NegInf"

fun js_lt :: "number \<Rightarrow> number \<Rightarrow> bool" where
  "js_lt (Fin a) (Fin b) = (a < b)"
| "js_lt NaN _ = False"
| "js_lt _ NaN = False"
| "js_lt NegInf NegInf = False"
| "js_lt NegInf _ = True"
| "js_lt _ NegInf = False"
| "js_lt PosInf _ = False"
| "js_lt _ PosInf = True"

definition number_of_int :: "int \<Rightarrow> number" where
  \<comment> \<open>the number an integer literal of the JSON body parses to\<close>
  "number_of_int i = binary64 (of_int i)"

definition Number_decimal :: "int \<Rightarrow> number" where
  \<comment> \<open>\<open>Number(d)\<close> for a \<open>Decimal(8, 2)\<close> column value \<open>d\<close>, held as its count of
      hundredths\<close>
  "Number_decimal cents = binary64 (of_int cents / 100)"

section \<open>Data model (\<open>prisma/schema.prisma\<close>, \<open>src/types/orderTypes.ts\<close>)\<close>

datatype OrderStatus = PENDING | PREPARING | READY | DELIVERED | CANCELLED

datatype PaymentMethod = YAPE | PLIN | TUNKI | CASH

datatype NotificationType = ORDER | PROMO | SYSTEM

text \<open>
  Column names carry a prefix for their table, since a field name is a constant here.
  A \<open>Decimal(8, 2)\<close> column of the catalog is held as its count of hundredths. The money
  columns of an order and of an order item hold the \<open>number\<close> the controller hands to the
  client library. Time stamps are natural numbers.
\<close>

record Product =
  p_id :: int
  p_name :: string
  p_description :: "string option"
  p_price :: int
  p_imageUrl :: "string option"
  p_isAvailable :: bool

record Order =
  o_id :: int
  o_userId :: int
  o_status :: OrderStatus
  o_deliveryLocation :: string
  o_paymentMethod :: PaymentMethod
  o_subtotal :: number
  o_deliveryFee :: number
  o_total :: number
  o_notes :: "string option"
  o_createdAt :: nat
  o_updatedAt :: nat

record OrderItem =
  oi_id :: int
  oi_orderId :: int
  oi_productId :: int
  oi_quantity :: int
  oi_unitPrice :: number
  oi_customizations :: "(string \<times> string) list option"
  oi_specialNotes :: "string option"
  oi_subtotal :: number
  oi_createdAt :: nat

record Notification =
  n_id :: int
  n_userId :: int
  n_title :: string
  n_message :: string
  n_type :: NotificationType
  n_isRead :: bool
  n_orderId :: "int option"
  n_createdAt :: nat

text \<open>The store: the four tables the order controller touches and their id sequences.\<close>

record db =
  products :: "Product list"
  orders :: "Order list"
  orderItems :: "OrderItem list"
  notifications :: "Notification list"
  order_seq :: int
  orderItem_seq :: int
  notification_seq :: int

text \<open>The verified identity \<open>req.user\<close> (\<open>JWTPayload\<close>).\<close>

record JWTPayload =
  userId :: int
  role :: string

text \<open>
  The request body of \<open>POST /api/orders\<close>. A field the body may lack is an option; a
  quantity is an integer literal of the body. The field \<open>notes\<close> is \<open>req_notes\<close> here.
\<close>

record OrderItemInput =
  productId :: int
  quantity :: "int option"
  customizations :: "(string \<times> string) list option"
  specialNotes :: "string option"

record CreateOrderInput =
  items :: "OrderItemInput list option"
  deliveryLocation :: "string option"
  paymentMethod :: "string option"
  req_notes :: "string option"

record ProcessedOrderItem =
  item_productId :: int
  item_quantity :: int
  item_unitPrice :: number
  item_customizations :: "(string \<times> string) list option"
  item_specialNotes :: "string option"
  item_subtotal :: number

text \<open>
  An order as the responses return it: the row, and its items with their products. (The
  responses also carry a summary of the order's user; the table of users is not part of
  this model.)
\<close>

record CompleteOrder =
  co_order :: Order
  co_orderItems :: "(OrderItem \<times> Product option) list"

text \<open>
  The error responses, named by the \<open>code\<close> field they carry. The validation response
  (\<open>400\<close>, "Datos de entrada invalidos") carries the validators' messages instead.
\<close>

datatype error =
    VALIDATION_FAILED "string list"
  | NO_ITEMS_IN_ORDER
  | PRODUCT_NOT_FOUND int
  | PRODUCT_NOT_AVAILABLE string
  | MINIMUM_ORDER_NOT_MET
  | ORDER_CREATE_ERROR
  | INVALID_ORDER_ID
  | ORDER_NOT_FOUND
  | ORDER_ACCESS_DENIED
  | ORDER_CANNOT_BE_CANCELLED
  | ORDER_CANCEL_ERROR
  | INVALID_STATUS_TRANSITION OrderStatus string
  | ORDER_STATUS_UPDATE_ERROR

fun http_status :: "error \<Rightarrow> nat" where
  "http_status (VALIDATION_FAILED _) = 400"
| "http_status NO_ITEMS_IN_ORDER = 400"
| "http_status (PRODUCT_NOT_FOUND _) = 404"
| "http_status (PRODUCT_NOT_AVAILABLE _) = 400"
| "http_status MINIMUM_ORDER_NOT_MET = 400"
| "http_status ORDER_CREATE_ERROR = 500"
| "http_status INVALID_ORDER_ID = 400"
| "http_status ORDER_NOT_FOUND = 404"
| "http_status ORDER_ACCESS_DENIED = 403"
| "http_status ORDER_CANNOT_BE_CANCELLED = 400"
| "http_status ORDER_CANCEL_ERROR = 500"
| "http_status (INVALID_STATUS_TRANSITION _ _) = 400"
| "http_status ORDER_STATUS_UPDATE_ERROR = 500"

section \<open>Strings\<close>

function string_of_nat :: "nat \<Rightarrow> string" where
  "string_of_nat n =
     (if n < 10 then [char_of (48 + n)]
      else string_of_nat (n div 10) @ [char_of (48 + n mod 10)])"
  by pat_completeness auto
termination
  by (relation "measure (\<lambda>n. n)") auto

definition string_of_int :: "int \<Rightarrow> string" where
  \<comment> \<open>a template literal's \<open>${n}\<close> for an integer\<close>
  "string_of_int i = (if i < 0 then ''-'' @ string_of_nat (nat (- i)) else string_of_nat (nat i))"

definition a_acute :: string where
  \<comment> \<open>the letter a with acute accent, in UTF-8\<close>
  "a_acute = [CHR 0xC3, CHR 0xA1]"

definition parse_PaymentMethod :: "string \<Rightarrow> PaymentMethod option" where
  "parse_PaymentMethod s =
     (if s = ''YAPE'' then Some YAPE
      else if s = ''PLIN'' then Some PLIN
      else if s = ''TUNKI'' then Some TUNKI
      else if s = ''CASH'' then Some CASH
      else None)"

definition parse_OrderStatus :: "string \<Rightarrow> OrderStatus option" where
  "parse_OrderStatus s =
     (if s = ''PENDING'' then Some PENDING
      else if s = ''PREPARING'' then Some PREPARING
      else if s = ''READY'' then Some READY
      else if s = ''DELIVERED'' then Some DELIVERED
      else if s = ''CANCELLED'' then Some CANCELLED
      else None)"

section \<open>The store\<close>

text \<open>
  A write of the client library either returns the row it wrote or throws. It throws when
  the data does not fit the schema (a required column without a value, a string that is
  not a member of the column's enum), and it may throw for reasons of the store itself
  (the connection, a column's range, a constraint): the flag \<open>rejected\<close> of each write
  stands for those. A controller receives the flags of its writes as \<open>faults\<close>, indexed
  by the position of the write within its transaction. \<open>None\<close> is a throw. Reads
  do not throw here.
\<close>

definition tx_order_create ::
  "bool \<Rightarrow> nat \<Rightarrow> int \<Rightarrow> string option \<Rightarrow> string option \<Rightarrow> number \<Rightarrow> number \<Rightarrow> number
     \<Rightarrow> string option \<Rightarrow> OrderStatus \<Rightarrow> db \<Rightarrow> (Order \<times> db) option" where
  "tx_order_create rejected now uid location method subtotal fee tot nts st d =
     (if rejected then None
      else case location of
        None \<Rightarrow> None
      | Some loc \<Rightarrow>
          (case Option.bind method parse_PaymentMethod of
             None \<Rightarrow> None
           | Some pm \<Rightarrow>
               let row = \<lparr>o_id = order_seq d, o_userId = uid, o_status = st,
                          o_deliveryLocation = loc, o_paymentMethod = pm,
                          o_subtotal = subtotal, o_deliveryFee = fee, o_total = tot,
                          o_notes = nts, o_createdAt = now, o_updatedAt = now\<rparr>
               in Some (row, d\<lparr>orders := orders d @ [row], order_seq := order_seq d + 1\<rparr>)))"

definition tx_orderItem_create ::
  "bool \<Rightarrow> nat \<Rightarrow> int \<Rightarrow> ProcessedOrderItem \<Rightarrow> db \<Rightarrow> (OrderItem \<times> db) option" where
  "tx_orderItem_create rejected now oid item d =
     (if rejected then None
      else
        let row = \<lparr>oi_id = orderItem_seq d, oi_orderId = oid,
                   oi_productId = item_productId item, oi_quantity = item_quantity item,
                   oi_unitPrice = item_unitPrice item,
                   oi_customizations = item_customizations item,
                   oi_specialNotes = item_specialNotes item,
                   oi_subtotal = item_subtotal item, oi_createdAt = now\<rparr>
        in Some (row, d\<lparr>orderItems := orderItems d @ [row],
                           orderItem_seq := orderItem_seq d + 1\<rparr>))"

definition tx_notification_create ::
  "bool \<Rightarrow> nat \<Rightarrow> int \<Rightarrow> string \<Rightarrow> string \<Rightarrow> NotificationType \<Rightarrow> int \<Rightarrow> db
     \<Rightarrow> (Notification \<times> db) option" where
  "tx_notification_create rejected now uid title message ty oid d =
     (if rejected then None
      else
        let row = \<lparr>n_id = notification_seq d, n_userId = uid, n_title = title,
                   n_message = message, n_type = ty, n_isRead = False,
                   n_orderId = Some oid, n_createdAt = now\<rparr>
        in Some (row, d\<lparr>notifications := notifications d @ [row],
                           notification_seq := notification_seq d + 1\<rparr>))"

definition tx_order_update_status ::
  "bool \<Rightarrow> nat \<Rightarrow> int \<Rightarrow> string \<Rightarrow> db \<Rightarrow> (Order \<times> db) option" where
  \<comment> \<open>\<open>tx.order.update({ where: { id }, data: { status } })\<close>; the column
      \<open>updatedAt\<close> is set by the client library on every update\<close>
  "tx_order_update_status rejected now oid st d =
     (if rejected then None
      else case parse_OrderStatus st of
        None \<Rightarrow> None
      | Some s \<Rightarrow>
          (case find (\<lambda>r. o_id r = oid) (orders d) of
             None \<Rightarrow> None
           | Some row \<Rightarrow>
               Some (row\<lparr>o_status := s, o_updatedAt := now\<rparr>,
                     d\<lparr>orders :=
                         map (\<lambda>r. if o_id r = oid then r\<lparr>o_status := s, o_updatedAt := now\<rparr>
                                  else r) (orders d)\<rparr>)))"

definition transaction :: "(db \<Rightarrow> ('a \<times> db) option) \<Rightarrow> db \<Rightarrow> 'a option \<times> db" where
  \<comment> \<open>\<open>prisma.$transaction(async (tx) => ...)\<close>: the writes of the callback are kept
      when it returns and undone when it throws (the id sequences with them)\<close>
  "transaction body d =
     (case body d of None \<Rightarrow> (None, d) | Some (r, d') \<Rightarrow> (Some r, d'))"

definition findUnique_product :: "db \<Rightarrow> int \<Rightarrow> Product option" where
  "findUnique_product d pid = find (\<lambda>p. p_id p = pid) (products d)"

definition findUnique_order :: "db \<Rightarrow> int \<Rightarrow> Order option" where
  "findUnique_order d oid = find (\<lambda>r. o_id r = oid) (orders d)"

definition include_orderItems :: "db \<Rightarrow> Order \<Rightarrow> CompleteOrder" where
  \<comment> \<open>\<open>include: { orderItems: { include: { product: ... } } }\<close>\<close>
  "include_orderItems d order =
     \<lparr>co_order = order,
      co_orderItems =
        map (\<lambda>i. (i, findUnique_product d (oi_productId i)))
          (filter (\<lambda>i. oi_orderId i = o_id order) (orderItems d))\<rparr>"

section \<open>Request validation (\<open>express-validator\<close>)\<close>

text \<open>
  \<open>validationResult(req)\<close> holds the messages of the validation chains that ran as
  middleware of the route. The order router mounts none:
  \<open>router.post("/", authenticateToken, OrderController.createOrder)\<close> and
  \<open>router.patch("/admin/:id/status", authenticateToken, requireAdmin,
  OrderController.updateOrderStatus)\<close>.
\<close>

definition validationResult :: "('b \<Rightarrow> string list) list \<Rightarrow> 'b \<Rightarrow> string list" where
  "validationResult vs body = concat (map (\<lambda>v. v body) vs)"

definition post_orders_validation :: "(CreateOrderInput \<Rightarrow> string list) list" where
  "post_orders_validation = []"


section \<open>\<open>OrderController.createOrder\<close>\<close>

definition line_quantity :: "OrderItemInput \<Rightarrow> int" where
  \<comment> \<open>\<open>item.quantity || 1\<close>: the default replaces every falsy value, zero as well\<close>
  "line_quantity item = (case quantity item of None \<Rightarrow> 1 | Some q \<Rightarrow> if q = 0 then 1 else q)"

definition line_specialNotes :: "OrderItemInput \<Rightarrow> string option" where
  \<comment> \<open>\<open>item.specialNotes || null\<close>: the empty string is falsy\<close>
  "line_specialNotes item =
     (case specialNotes item of None \<Rightarrow> None | Some n \<Rightarrow> if n = [] then None else Some n)"

definition process_item :: "Product \<Rightarrow> OrderItemInput \<Rightarrow> ProcessedOrderItem" where
  \<comment> \<open>the element pushed to \<open>orderItems\<close> for one line\<close>
  "process_item product item =
     (let unitPrice = Number_decimal (p_price product);
          itemSubtotal = js_mul unitPrice (number_of_int (line_quantity item))
      in \<lparr>item_productId = productId item, item_quantity = line_quantity item,
          item_unitPrice = unitPrice, item_customizations = customizations item,
          item_specialNotes = line_specialNotes item, item_subtotal = itemSubtotal\<rparr>)"

fun createOrder_loop ::
  "db \<Rightarrow> OrderItemInput list \<Rightarrow> number \<Rightarrow> ProcessedOrderItem list
     \<Rightarrow> error + number \<times> ProcessedOrderItem list" where
  \<comment> \<open>\<open>for (const item of items)\<close>, with the variables \<open>subtotal\<close> and
      \<open>orderItems\<close> it updates\<close>
  "createOrder_loop d [] subtotal acc = Inr (subtotal, acc)"
| "createOrder_loop d (item # rest) subtotal acc =
     (case findUnique_product d (productId item) of
        None \<Rightarrow> Inl (PRODUCT_NOT_FOUND (productId item))
      | Some product \<Rightarrow>
          if \<not> p_isAvailable product then Inl (PRODUCT_NOT_AVAILABLE (p_name product))
          else createOrder_loop d rest
                 (js_add subtotal (item_subtotal (process_item product item)))
                 (acc @ [process_item product item]))"

fun tx_orderItems_create ::
  "(nat \<Rightarrow> bool) \<Rightarrow> nat \<Rightarrow> nat \<Rightarrow> int \<Rightarrow> ProcessedOrderItem list \<Rightarrow> db \<Rightarrow> db option" where
  \<comment> \<open>\<open>for (const item of orderItems) await tx.orderItem.create(...)\<close>; \<open>k\<close> is the
      position of the next write\<close>
  "tx_orderItems_create faults k now oid [] d = Some d"
| "tx_orderItems_create faults k now oid (item # rest) d =
     (case tx_orderItem_create (faults k) now oid item d of
        None \<Rightarrow> None
      | Some (row, d') \<Rightarrow> tx_orderItems_create faults (Suc k) now oid rest d')"

definition confirmed_message :: "int \<Rightarrow> string" where
  "confirmed_message oid =
     ''Tu pedido #'' @ string_of_int oid @ '' ha sido confirmado y est'' @ a_acute
       @ '' siendo procesado.''"

definition createOrder_tx ::
  "(nat \<Rightarrow> bool) \<Rightarrow> nat \<Rightarrow> int \<Rightarrow> CreateOrderInput \<Rightarrow> ProcessedOrderItem list
     \<Rightarrow> number \<Rightarrow> number \<Rightarrow> number \<Rightarrow> db \<Rightarrow> (Order \<times> db) option" where
  \<comment> \<open>the callback of \<open>prisma.$transaction\<close>: write 0 is the order, writes
      \<open>1 .. n\<close> the items, write \<open>n + 1\<close> the notification\<close>
  "createOrder_tx faults now uid body lines subtotal deliveryFee tot d =
     (case tx_order_create (faults 0) now uid (deliveryLocation body) (paymentMethod body)
             subtotal deliveryFee tot (req_notes body) PENDING d of
        None \<Rightarrow> None
      | Some (newOrder, d1) \<Rightarrow>
          (case tx_orderItems_create faults 1 now (o_id newOrder) lines d1 of
             None \<Rightarrow> None
           | Some d2 \<Rightarrow>
               (case tx_notification_create (faults (Suc (length lines))) now uid
                       ''Pedido confirmado'' (confirmed_message (o_id newOrder)) ORDER
                       (o_id newOrder) d2 of
                  None \<Rightarrow> None
                | Some (n, d3) \<Rightarrow> Some (newOrder, d3))))"

definition createOrder ::
  "(nat \<Rightarrow> bool) \<Rightarrow> nat \<Rightarrow> JWTPayload \<Rightarrow> CreateOrderInput \<Rightarrow> db
     \<Rightarrow> (error + CompleteOrder option) \<times> db" where
  "createOrder faults now user body d =
     (let errors = validationResult post_orders_validation body in
      if errors \<noteq> [] then (Inl (VALIDATION_FAILED errors), d)
      else case items body of
        None \<Rightarrow> (Inl NO_ITEMS_IN_ORDER, d)
      | Some its \<Rightarrow>
          if its = [] then (Inl NO_ITEMS_IN_ORDER, d)
          else
            (case createOrder_loop d its (Fin 0) [] of
               Inl e \<Rightarrow> (Inl e, d)
             | Inr (subtotal, lines) \<Rightarrow>
                 if js_lt subtotal (Fin 2) then (Inl MINIMUM_ORDER_NOT_MET, d)
                 else
                   let deliveryFee = Fin 1;
                       tot = js_add subtotal deliveryFee
                   in (case transaction
                             (createOrder_tx faults now (userId user) body lines
                                subtotal deliveryFee tot) d of
                         (None, d') \<Rightarrow> (Inl ORDER_CREATE_ERROR, d')
                       | (Some order, d') \<Rightarrow>
                           (Inr (map_option (include_orderItems d')
                                   (findUnique_order d' (o_id order))), d'))))"

section \<open>\<open>OrderController.getOrderById\<close>\<close>

text \<open>
  The route parameter enters as the value of \<open>parseInt(id)\<close>: an integer, or \<open>None\<close>
  for \<open>NaN\<close>.
\<close>

definition getOrderById :: "JWTPayload \<Rightarrow> int option \<Rightarrow> db \<Rightarrow> error + CompleteOrder" where
  "getOrderById user idParam d =
     (case idParam of
        None \<Rightarrow> Inl INVALID_ORDER_ID
      | Some orderId \<Rightarrow>
          (case (if role user \<noteq> ''ADMIN''
                 then find (\<lambda>r. o_id r = orderId \<and> o_userId r = userId user) (orders d)
                 else find (\<lambda>r. o_id r = orderId) (orders d)) of
             None \<Rightarrow> Inl ORDER_NOT_FOUND
           | Some order \<Rightarrow> Inr (include_orderItems d order)))"

section \<open>\<open>OrderController.cancelOrder\<close>\<close>

definition cancelled_message :: "int \<Rightarrow> string" where
  "cancelled_message oid =
     ''Tu pedido #'' @ string_of_int oid @ '' ha sido cancelado exitosamente.''"

definition cancelOrder_tx ::
  "(nat \<Rightarrow> bool) \<Rightarrow> nat \<Rightarrow> int \<Rightarrow> int \<Rightarrow> db \<Rightarrow> (Order \<times> db) option" where
  "cancelOrder_tx faults now uid orderId d =
     (case tx_order_update_status (faults 0) now orderId ''CANCELLED'' d of
        None \<Rightarrow> None
      | Some (updated, d1) \<Rightarrow>
          (case tx_notification_create (faults 1) now uid ''Pedido cancelado''
                  (cancelled_message orderId) ORDER orderId d1 of
             None \<Rightarrow> None
           | Some (n, d2) \<Rightarrow> Some (updated, d2)))"

definition cancelOrder ::
  "(nat \<Rightarrow> bool) \<Rightarrow> nat \<Rightarrow> JWTPayload \<Rightarrow> int option \<Rightarrow> db \<Rightarrow> (error + Order) \<times> db" where
  "cancelOrder faults now user idParam d =
     (case idParam of
        None \<Rightarrow> (Inl INVALID_ORDER_ID, d)
      | Some orderId \<Rightarrow>
          (case findUnique_order d orderId of
             None \<Rightarrow> (Inl ORDER_NOT_FOUND, d)
           | Some order \<Rightarrow>
               if o_userId order \<noteq> userId user then (Inl ORDER_ACCESS_DENIED, d)
               else if o_status order \<noteq> PENDING then (Inl ORDER_CANNOT_BE_CANCELLED, d)
               else
                 (case transaction (cancelOrder_tx faults now (userId user) orderId) d of
                    (None, d') \<Rightarrow> (Inl ORDER_CANCEL_ERROR, d')
                  | (Some updatedOrder, d') \<Rightarrow> (Inr updatedOrder, d'))))"

section \<open>\<open>OrderController.updateOrderStatus\<close>\<close>






section \<open>Notions of the statements\<close>





definition priced_as :: "db \<Rightarrow> OrderItemInput \<Rightarrow> ProcessedOrderItem \<Rightarrow> bool" where
  \<comment> \<open>\<open>li\<close> is the line computed for the request line \<open>it\<close>\<close>
  "priced_as d it li =
     (case findUnique_product d (productId it) of
        None \<Rightarrow> False
      | Some p \<Rightarrow> p_isAvailable p \<and> li = process_item p it)"

definition stores :: "int \<Rightarrow> ProcessedOrderItem \<Rightarrow> OrderItem \<Rightarrow> bool" where
  \<comment> \<open>\<open>row\<close> is the order item written for the computed line \<open>li\<close> of order \<open>oid\<close>\<close>
  "stores oid li row =
     (oi_orderId row = oid \<and> oi_productId row = item_productId li
      \<and> oi_quantity row = item_quantity li \<and> oi_unitPrice row = item_unitPrice li
      \<and> oi_customizations row = item_customizations li
      \<and> oi_specialNotes row = item_specialNotes li \<and> oi_subtotal row = item_subtotal li)"



definition visible_to :: "JWTPayload \<Rightarrow> db \<Rightarrow> Order list \<times> OrderItem list \<times> Product list" where
  \<comment> \<open>the part of the store that is the caller's: the caller's orders, their items, and
      the catalog\<close>
  "visible_to user d =
     (filter (\<lambda>r. o_userId r = userId user) (orders d),
      filter (\<lambda>i. oi_orderId i \<in> o_id ` set (filter (\<lambda>r. o_userId r = userId user) (orders d)))
        (orderItems d),
      products d)"

section \<open>Sample data\<close>

definition ex_products :: "Product list" where
  "ex_products =
     [\<lparr>p_id = 1, p_name = ''Cafe'', p_description = None, p_price = 350,
        p_imageUrl = None, p_isAvailable = True\<rparr>,
      \<lparr>p_id = 2, p_name = ''Te'', p_description = None, p_price = 100,
        p_imageUrl = None, p_isAvailable = True\<rparr>,
      \<lparr>p_id = 3, p_name = ''Pan'', p_description = None, p_price = 10,
        p_imageUrl = None, p_isAvailable = True\<rparr>,
      \<lparr>p_id = 4, p_name = ''Jugo'', p_description = None, p_price = 500,
        p_imageUrl = None, p_isAvailable = False\<rparr>,
      \<lparr>p_id = 5, p_name = ''Galleta'', p_description = None, p_price = 60,
        p_imageUrl = None, p_isAvailable = True\<rparr>]"

definition ex_order :: "OrderStatus \<Rightarrow> Order" where
  "ex_order s =
     \<lparr>o_id = 1, o_userId = 7, o_status = s, o_deliveryLocation = ''Aula 101'',
      o_paymentMethod = CASH, o_subtotal = Fin 7, o_deliveryFee = Fin 1, o_total = Fin 8,
      o_notes = None, o_createdAt = 5, o_updatedAt = 5\<rparr>"

definition ex_db :: "Order list \<Rightarrow> db" where
  "ex_db os =
     \<lparr>products = ex_products, orders = os, orderItems = [], notifications = [],
      order_seq = 1 + int (length os), orderItem_seq = 1, notification_seq = 1\<rparr>"

definition ex_user :: JWTPayload where
  "ex_user = \<lparr>userId = 7, role = ''CLIENT''\<rparr>"

definition ex_other :: JWTPayload where
  "ex_other = \<lparr>userId = 8, role = ''CLIENT''\<rparr>"

definition ex_line :: "int \<Rightarrow> int option \<Rightarrow> OrderItemInput" where
  "ex_line p q = \<lparr>productId = p, quantity = q, customizations = None, specialNotes = None\<rparr>"

definition ex_body :: "OrderItemInput list \<Rightarrow> CreateOrderInput" where
  "ex_body its =
     \<lparr>items = Some its, deliveryLocation = Some ''Aula 101'', paymentMethod = Some ''CASH'',
      req_notes = None\<rparr>"

definition ex_unshaped :: "OrderItemInput list \<Rightarrow> CreateOrderInput" where
  \<comment> \<open>a body with neither \<open>deliveryLocation\<close> nor \<open>paymentMethod\<close>\<close>
  "ex_unshaped its =
     \<lparr>items = Some its, deliveryLocation = None, paymentMethod = None, req_notes = None\<rparr>"


definition ex_foreign_db :: db where
  \<comment> \<open>the sample store with an order of user 7 and an item of that order\<close>
  "ex_foreign_db =
     (ex_db [ex_order PENDING])
       \<lparr>orderItems :=
          [\<lparr>oi_id = 1, oi_orderId = 1, oi_productId = 1, oi_quantity = 2,
             oi_unitPrice = Fin (7 / 2), oi_customizations = None, oi_specialNotes = None,
             oi_subtotal = Fin 7, oi_createdAt = 5\<rparr>],
        orderItem_seq := 2\<rparr>"

section \<open>Facts about the sample data\<close>



section \<open>The accuracy of the rounding\<close>








section \<open>The status workflow\<close>






section \<open>Reading and cancelling an order\<close>

lemma find_conj_filter:
  "find (\<lambda>r. P r \<and> Q r) xs = find P (filter Q xs)"
  by (induction xs) auto

lemma find_None_iff_all: "find P xs = None \<longleftrightarrow> \<not> list_ex P xs"
  by (induction xs) auto

text \<open>
  C5. For an existing order, \<open>cancelOrder\<close> goes through exactly when the caller
  owns the order and the order is \<open>PENDING\<close>: with a store that accepts the two
  writes the order becomes \<open>CANCELLED\<close> (and one notification is added), with a
  store that rejects one the response is the internal failure and nothing is changed.
  A caller who is not the owner gets \<open>ORDER_ACCESS_DENIED\<close> whatever the status, the
  owner of an order that is not \<open>PENDING\<close> gets \<open>ORDER_CANNOT_BE_CANCELLED\<close>, and
  in both cases nothing is changed.
\<close>

theorem cancelOrder_owner_pending:
  assumes "findUnique_order d oid = Some ord"
  shows "(o_userId ord = userId user \<and> o_status ord = PENDING \<and> \<not> faults 0 \<and> \<not> faults 1 \<longrightarrow>
            (\<exists>n. cancelOrder faults now user (Some oid) d =
                 (Inr (ord\<lparr>o_status := CANCELLED, o_updatedAt := now\<rparr>),
                  d\<lparr>orders := map (\<lambda>r. if o_id r = oid
                                         then r\<lparr>o_status := CANCELLED, o_updatedAt := now\<rparr>
                                         else r) (orders d),
                    notifications := notifications d @ [n],
                    notification_seq := notification_seq d + 1\<rparr>)
               \<and> n_userId n = userId user \<and> n_orderId n = Some oid
               \<and> n_title n = ''Pedido cancelado''))
       \<and> (o_userId ord = userId user \<and> o_status ord = PENDING \<and> (faults 0 \<or> faults 1) \<longrightarrow>
            cancelOrder faults now user (Some oid) d = (Inl ORDER_CANCEL_ERROR, d))
       \<and> (o_userId ord \<noteq> userId user \<longrightarrow>
            cancelOrder faults now user (Some oid) d = (Inl ORDER_ACCESS_DENIED, d))
       \<and> (o_userId ord = userId user \<and> o_status ord \<noteq> PENDING \<longrightarrow>
            cancelOrder faults now user (Some oid) d = (Inl ORDER_CANNOT_BE_CANCELLED, d))"
proof -
  from assms have f: "find (\<lambda>r. o_id r = oid) (orders d) = Some ord"
    by (simp add: findUnique_order_def)
  have p: "parse_OrderStatus ''CANCELLED'' = Some CANCELLED"
    by (simp add: parse_OrderStatus_def)
  have ok: "cancelOrder_tx faults now (userId user) oid d =
      Some (ord\<lparr>o_status := CANCELLED, o_updatedAt := now\<rparr>,
            d\<lparr>orders := map (\<lambda>r. if o_id r = oid
                                   then r\<lparr>o_status := CANCELLED, o_updatedAt := now\<rparr>
                                   else r) (orders d),
              notifications := notifications d @
                [\<lparr>n_id = notification_seq d, n_userId = userId user,
                  n_title = ''Pedido cancelado'', n_message = cancelled_message oid,
                  n_type = ORDER, n_isRead = False, n_orderId = Some oid,
                  n_createdAt = now\<rparr>],
              notification_seq := notification_seq d + 1\<rparr>)"
    if "\<not> faults 0" "\<not> faults 1"
    using that f p
    by (simp add: cancelOrder_tx_def tx_order_update_status_def tx_notification_create_def
        Let_def)
  have bad: "cancelOrder_tx faults now (userId user) oid d = None" if "faults 0 \<or> faults 1"
    using that f p
    by (auto simp add: cancelOrder_tx_def tx_order_update_status_def
        tx_notification_create_def Let_def)
  show ?thesis
  proof (intro conjI impI)
    assume a: "o_userId ord = userId user \<and> o_status ord = PENDING \<and> \<not> faults 0 \<and> \<not> faults 1"
    show "\<exists>n. cancelOrder faults now user (Some oid) d =
                 (Inr (ord\<lparr>o_status := CANCELLED, o_updatedAt := now\<rparr>),
                  d\<lparr>orders := map (\<lambda>r. if o_id r = oid
                                         then r\<lparr>o_status := CANCELLED, o_updatedAt := now\<rparr>
                                         else r) (orders d),
                    notifications := notifications d @ [n],
                    notification_seq := notification_seq d + 1\<rparr>)
               \<and> n_userId n = userId user \<and> n_orderId n = Some oid
               \<and> n_title n = ''Pedido cancelado''"
      apply (rule exI[of _ "\<lparr>n_id = notification_seq d, n_userId = userId user,
                  n_title = ''Pedido cancelado'', n_message = cancelled_message oid,
                  n_type = ORDER, n_isRead = False, n_orderId = Some oid,
                  n_createdAt = now\<rparr>"])
      using a assms ok by (simp add: cancelOrder_def transaction_def)
  next
    assume "o_userId ord = userId user \<and> o_status ord = PENDING \<and> (faults 0 \<or> faults 1)"
    then show "cancelOrder faults now user (Some oid) d = (Inl ORDER_CANCEL_ERROR, d)"
      using assms bad by (simp add: cancelOrder_def transaction_def)
  next
    assume "o_userId ord \<noteq> userId user"
    then show "cancelOrder faults now user (Some oid) d = (Inl ORDER_ACCESS_DENIED, d)"
      using assms by (simp add: cancelOrder_def)
  next
    assume "o_userId ord = userId user \<and> o_status ord \<noteq> PENDING"
    then show "cancelOrder faults now user (Some oid) d = (Inl ORDER_CANNOT_BE_CANCELLED, d)"
      using assms by (simp add: cancelOrder_def)
  qed
qed

theorem cancelOrder_owner_pending_witness:
  "findUnique_order (ex_db [ex_order PENDING]) 1 = Some (ex_order PENDING)
   \<and> o_userId (ex_order PENDING) = userId ex_user
   \<and> fst (cancelOrder (\<lambda>k. False) 9 ex_user (Some 1) (ex_db [ex_order PENDING]))
       = Inr ((ex_order PENDING)\<lparr>o_status := CANCELLED, o_updatedAt := 9\<rparr>)
   \<and> o_userId (ex_order PENDING) \<noteq> userId ex_other
   \<and> cancelOrder (\<lambda>k. False) 9 ex_other (Some 1) (ex_db [ex_order PENDING])
       = (Inl ORDER_ACCESS_DENIED, ex_db [ex_order PENDING])
   \<and> o_status (ex_order READY) \<noteq> PENDING
   \<and> cancelOrder (\<lambda>k. False) 9 ex_user (Some 1) (ex_db [ex_order READY])
       = (Inl ORDER_CANNOT_BE_CANCELLED, ex_db [ex_order READY])
   \<and> cancelOrder (\<lambda>k. k = 1) 9 ex_user (Some 1) (ex_db [ex_order PENDING])
       = (Inl ORDER_CANCEL_ERROR, ex_db [ex_order PENDING])"
proof -
  have f: "findUnique_order (ex_db [ex_order s]) 1 = Some (ex_order s)" for s
    by (simp add: findUnique_order_def ex_db_def ex_order_def)
  have s: "o_status (ex_order s) = s" "o_userId (ex_order s) = 7" for s
    by (simp_all add: ex_order_def)
  have u: "userId ex_user = 7" "userId ex_other = 8"
    by (simp_all add: ex_user_def ex_other_def)
  note t = cancelOrder_owner_pending [OF f]
  from t [of PENDING ex_user "\<lambda>k. False" 9] s u have g1:
    "fst (cancelOrder (\<lambda>k. False) 9 ex_user (Some 1) (ex_db [ex_order PENDING]))
       = Inr ((ex_order PENDING)\<lparr>o_status := CANCELLED, o_updatedAt := 9\<rparr>)"
    by auto
  from t [of PENDING ex_other "\<lambda>k. False" 9] s u have g2:
    "cancelOrder (\<lambda>k. False) 9 ex_other (Some 1) (ex_db [ex_order PENDING])
       = (Inl ORDER_ACCESS_DENIED, ex_db [ex_order PENDING])"
    by simp
  from t [of READY ex_user "\<lambda>k. False" 9] s u have g3:
    "cancelOrder (\<lambda>k. False) 9 ex_user (Some 1) (ex_db [ex_order READY])
       = (Inl ORDER_CANNOT_BE_CANCELLED, ex_db [ex_order READY])"
    by simp
  from t [of PENDING ex_user "\<lambda>k. k = 1" 9] s u have g4:
    "cancelOrder (\<lambda>k. k = 1) 9 ex_user (Some 1) (ex_db [ex_order PENDING])
       = (Inl ORDER_CANCEL_ERROR, ex_db [ex_order PENDING])"
    by simp
  from f s u g1 g2 g3 g4 show ?thesis by simp
qed

lemma find_Some_set: "find P xs = Some x \<Longrightarrow> x \<in> set xs \<and> P x"
  by (induction xs) (auto split: if_splits)

lemma include_orderItems_visible:
  assumes "visible_to user d = visible_to user d'"
    and "r \<in> set (orders d)" and "o_userId r = userId user"
  shows "include_orderItems d r = include_orderItems d' r"
proof -
  let ?own = "\<lambda>d. filter (\<lambda>r. o_userId r = userId user) (orders d)"
  let ?ids = "\<lambda>d. o_id ` set (?own d)"
  from assms(1) have "?own d = ?own d'
      \<and> filter (\<lambda>i. oi_orderId i \<in> ?ids d) (orderItems d) =
        filter (\<lambda>i. oi_orderId i \<in> ?ids d') (orderItems d')
      \<and> products d = products d'"
    unfolding visible_to_def prod.inject .
  then have own: "?own d = ?own d'"
    and its: "filter (\<lambda>i. oi_orderId i \<in> ?ids d) (orderItems d) =
              filter (\<lambda>i. oi_orderId i \<in> ?ids d') (orderItems d')"
    and ps: "products d = products d'"
    by blast+
  from assms(2,3) have mine: "o_id r \<in> ?ids d"
    by auto
  with own have mine': "o_id r \<in> ?ids d'"
    by simp
  have "filter (\<lambda>i. oi_orderId i = o_id r) (orderItems d) =
        filter (\<lambda>i. oi_orderId i = o_id r) (filter (\<lambda>i. oi_orderId i \<in> ?ids d) (orderItems d))"
    using mine by (auto simp: filter_filter intro!: filter_cong)
  also have "\<dots> =
        filter (\<lambda>i. oi_orderId i = o_id r) (filter (\<lambda>i. oi_orderId i \<in> ?ids d') (orderItems d'))"
    by (simp only: its)
  also have "\<dots> = filter (\<lambda>i. oi_orderId i = o_id r) (orderItems d')"
    using mine' by (auto simp: filter_filter intro!: filter_cong)
  finally show ?thesis
    using ps by (simp add: include_orderItems_def findUnique_product_def)
qed

text \<open>
  C10. For a caller whose role is not \<open>ADMIN\<close>, \<open>getOrderById\<close> answers
  \<open>ORDER_NOT_FOUND\<close> whenever the caller has no order of that id, be it that no order
  has the id or that the order belongs to someone else; and two stores that differ only
  in the orders of other users and in the items of those orders give the caller the same
  response.
\<close>

theorem getOrderById_hides_foreign_orders:
  assumes "role user \<noteq> ''ADMIN''"
  shows "(\<not> list_ex (\<lambda>r. o_id r = oid \<and> o_userId r = userId user) (orders d) \<longrightarrow>
            getOrderById user (Some oid) d = Inl ORDER_NOT_FOUND)
       \<and> (visible_to user d = visible_to user d' \<longrightarrow>
            getOrderById user idParam d = getOrderById user idParam d')"
proof (intro conjI impI)
  assume "\<not> list_ex (\<lambda>r. o_id r = oid \<and> o_userId r = userId user) (orders d)"
  then have "find (\<lambda>r. o_id r = oid \<and> o_userId r = userId user) (orders d) = None"
    by (simp add: find_None_iff_all)
  with assms show "getOrderById user (Some oid) d = Inl ORDER_NOT_FOUND"
    by (simp add: getOrderById_def)
next
  assume v: "visible_to user d = visible_to user d'"
  show "getOrderById user idParam d = getOrderById user idParam d'"
  proof (cases idParam)
    case None
    then show ?thesis by (simp add: getOrderById_def)
  next
    case (Some x)
    from v have same: "find (\<lambda>r. o_id r = x \<and> o_userId r = userId user) (orders d) =
             find (\<lambda>r. o_id r = x \<and> o_userId r = userId user) (orders d')"
      by (simp add: find_conj_filter visible_to_def)
    show ?thesis
    proof (cases "find (\<lambda>r. o_id r = x \<and> o_userId r = userId user) (orders d)")
      case None
      with same Some assms show ?thesis
        by (simp add: getOrderById_def)
    next
      case (Some r)
      then have "r \<in> set (orders d)" "o_userId r = userId user"
        by (auto dest: find_Some_set)
      from include_orderItems_visible [OF v this]
      show ?thesis
        using Some same \<open>idParam = Some x\<close> assms by (simp add: getOrderById_def)
    qed
  qed
qed

theorem getOrderById_hides_foreign_orders_witness:
  "role ex_other \<noteq> ''ADMIN''
   \<and> list_ex (\<lambda>r. o_id r = 1) (orders ex_foreign_db)
   \<and> \<not> list_ex (\<lambda>r. o_id r = 2) (orders ex_foreign_db)
   \<and> getOrderById ex_other (Some 1) ex_foreign_db = Inl ORDER_NOT_FOUND
   \<and> getOrderById ex_other (Some 2) ex_foreign_db = Inl ORDER_NOT_FOUND
   \<and> visible_to ex_other ex_foreign_db = visible_to ex_other (ex_db [])
   \<and> getOrderById ex_other (Some 1) ex_foreign_db = getOrderById ex_other (Some 1) (ex_db [])
   \<and> (case getOrderById ex_user (Some 1) ex_foreign_db of
         Inl e \<Rightarrow> False
       | Inr r \<Rightarrow> co_order r = ex_order PENDING \<and> length (co_orderItems r) = 1)"
proof -
  have r: "role ex_other \<noteq> ''ADMIN''"
    by (simp add: ex_other_def)
  have e: "list_ex (\<lambda>r. o_id r = 1) (orders ex_foreign_db)"
    "\<not> list_ex (\<lambda>r. o_id r = 2) (orders ex_foreign_db)"
    by (simp_all add: ex_foreign_db_def ex_db_def ex_order_def)
  have n: "\<not> list_ex (\<lambda>r. o_id r = i \<and> o_userId r = userId ex_other) (orders ex_foreign_db)"
    for i
    by (simp add: ex_foreign_db_def ex_db_def ex_order_def ex_other_def)
  have q: "visible_to ex_other ex_foreign_db = visible_to ex_other (ex_db [])"
    by (simp add: visible_to_def ex_foreign_db_def ex_db_def ex_order_def ex_other_def)
  note t = getOrderById_hides_foreign_orders [OF r]
  from t [of 1 ex_foreign_db] n have g1:
    "getOrderById ex_other (Some 1) ex_foreign_db = Inl ORDER_NOT_FOUND"
    by blast
  from t [of 2 ex_foreign_db] n have g2:
    "getOrderById ex_other (Some 2) ex_foreign_db = Inl ORDER_NOT_FOUND"
    by blast
  from t [of _ ex_foreign_db "ex_db []" "Some 1"] q have g3:
    "getOrderById ex_other (Some 1) ex_foreign_db = getOrderById ex_other (Some 1) (ex_db [])"
    by blast
  have g4: "case getOrderById ex_user (Some 1) ex_foreign_db of
         Inl e \<Rightarrow> False
       | Inr r \<Rightarrow> co_order r = ex_order PENDING \<and> length (co_orderItems r) = 1"
    by (simp add: getOrderById_def ex_user_def ex_foreign_db_def ex_db_def ex_order_def
        include_orderItems_def)
  from r e g1 g2 q g3 g4 show ?thesis by simp
qed

section \<open>Creating an order\<close>

lemma createOrder_loop_Inr:
  "createOrder_loop d its s acc = Inr (s', lines) \<longleftrightarrow>
     (\<exists>new. list_all2 (priced_as d) its new \<and> lines = acc @ new
            \<and> s' = foldl js_add s (map item_subtotal new))"
proof (induction its arbitrary: s acc)
  case Nil
  then show ?case by auto
next
  case (Cons it rest)
  show ?case
  proof (cases "findUnique_product d (productId it)")
    case None
    then show ?thesis
      by (auto simp: priced_as_def list_all2_Cons1)
  next
    case (Some p)
    show ?thesis
    proof (cases "p_isAvailable p")
      case False
      with Some show ?thesis
        by (auto simp: priced_as_def list_all2_Cons1)
    next
      case True
      with Some have step: "createOrder_loop d (it # rest) s acc =
          createOrder_loop d rest (js_add s (item_subtotal (process_item p it)))
            (acc @ [process_item p it])"
        by simp
      from Some True have pr: "priced_as d it li \<longleftrightarrow> li = process_item p it" for li
        by (simp add: priced_as_def)
      show ?thesis
        unfolding step Cons.IH
        by (auto simp: list_all2_Cons1 pr)
    qed
  qed
qed


lemma tx_orderItems_create_Some:
  "tx_orderItems_create faults k now oid lines d = Some d' \<Longrightarrow>
     \<exists>rows. d' = d\<lparr>orderItems := orderItems d @ rows,
                    orderItem_seq := orderItem_seq d + int (length rows)\<rparr>
           \<and> list_all2 (stores oid) lines rows
           \<and> (\<forall>j<length lines. \<not> faults (k + j))"
proof (induction lines arbitrary: k d)
  case Nil
  then show ?case by simp
next
  case (Cons li rest)
  from Cons.prems obtain row d1 where
    w: "tx_orderItem_create (faults k) now oid li d = Some (row, d1)"
    and r: "tx_orderItems_create faults (Suc k) now oid rest d1 = Some d'"
    by (auto split: option.splits)
  from w have nf: "\<not> faults k"
    and d1: "d1 = d\<lparr>orderItems := orderItems d @ [row], orderItem_seq := orderItem_seq d + 1\<rparr>"
    and st: "stores oid li row"
    by (auto simp: tx_orderItem_create_def stores_def Let_def split: if_splits)
  from Cons.IH [OF r] obtain rows where
    d': "d' = d1\<lparr>orderItems := orderItems d1 @ rows,
                  orderItem_seq := orderItem_seq d1 + int (length rows)\<rparr>"
    and l: "list_all2 (stores oid) rest rows"
    and f: "\<forall>j<length rest. \<not> faults (Suc k + j)"
    by blast
  have "d' = d\<lparr>orderItems := orderItems d @ (row # rows),
               orderItem_seq := orderItem_seq d + int (length (row # rows))\<rparr>"
    by (simp add: d' d1)
  moreover have "list_all2 (stores oid) (li # rest) (row # rows)"
    using st l by simp
  moreover have "\<forall>j<length (li # rest). \<not> faults (k + j)"
  proof (intro allI impI)
    fix j assume "j < length (li # rest)"
    then show "\<not> faults (k + j)"
      using nf f by (cases j) auto
  qed
  ultimately show ?case by blast
qed


lemma createOrder_tx_Some:
  assumes "createOrder_tx faults now uid body lines s fee tot d = Some (ord, d')"
  shows "\<exists>loc pm rows n.
           deliveryLocation body = Some loc
         \<and> Option.bind (paymentMethod body) parse_PaymentMethod = Some pm
         \<and> ord = \<lparr>o_id = order_seq d, o_userId = uid, o_status = PENDING,
                  o_deliveryLocation = loc, o_paymentMethod = pm, o_subtotal = s,
                  o_deliveryFee = fee, o_total = tot, o_notes = req_notes body,
                  o_createdAt = now, o_updatedAt = now\<rparr>
         \<and> n = \<lparr>n_id = notification_seq d, n_userId = uid, n_title = ''Pedido confirmado'',
                n_message = confirmed_message (order_seq d), n_type = ORDER,
                n_isRead = False, n_orderId = Some (order_seq d), n_createdAt = now\<rparr>
         \<and> list_all2 (stores (order_seq d)) lines rows
         \<and> d' = d\<lparr>orders := orders d @ [ord], order_seq := order_seq d + 1,
                   orderItems := orderItems d @ rows,
                   orderItem_seq := orderItem_seq d + int (length rows),
                   notifications := notifications d @ [n],
                   notification_seq := notification_seq d + 1\<rparr>
         \<and> (\<forall>k\<le>Suc (length lines). \<not> faults k)"
proof -
  from assms obtain d1 where
    w0: "tx_order_create (faults 0) now uid (deliveryLocation body) (paymentMethod body)
           s fee tot (req_notes body) PENDING d = Some (ord, d1)"
    by (auto simp: createOrder_tx_def split: option.splits)
  with assms obtain d2 where
    w1: "tx_orderItems_create faults 1 now (o_id ord) lines d1 = Some d2"
    by (auto simp: createOrder_tx_def split: option.splits)
  with assms w0 obtain n where
    w2: "tx_notification_create (faults (Suc (length lines))) now uid ''Pedido confirmado''
           (confirmed_message (o_id ord)) ORDER (o_id ord) d2 = Some (n, d')"
    by (auto simp: createOrder_tx_def split: option.splits)
  from w0 obtain loc pm where
    f0: "\<not> faults 0" and loc: "deliveryLocation body = Some loc"
    and pm: "Option.bind (paymentMethod body) parse_PaymentMethod = Some pm"
    and ord: "ord = \<lparr>o_id = order_seq d, o_userId = uid, o_status = PENDING,
                  o_deliveryLocation = loc, o_paymentMethod = pm, o_subtotal = s,
                  o_deliveryFee = fee, o_total = tot, o_notes = req_notes body,
                  o_createdAt = now, o_updatedAt = now\<rparr>"
    and d1: "d1 = d\<lparr>orders := orders d @ [ord], order_seq := order_seq d + 1\<rparr>"
    by (auto simp: tx_order_create_def Let_def split: if_splits option.splits)
  from ord have oid: "o_id ord = order_seq d" by simp
  from tx_orderItems_create_Some [OF w1] obtain rows where
    d2: "d2 = d1\<lparr>orderItems := orderItems d1 @ rows,
                  orderItem_seq := orderItem_seq d1 + int (length rows)\<rparr>"
    and rows: "list_all2 (stores (o_id ord)) lines rows"
    and f1: "\<forall>j<length lines. \<not> faults (1 + j)"
    by blast
  from w2 have f2: "\<not> faults (Suc (length lines))"
    and n: "n = \<lparr>n_id = notification_seq d2, n_userId = uid, n_title = ''Pedido confirmado'',
                n_message = confirmed_message (o_id ord), n_type = ORDER,
                n_isRead = False, n_orderId = Some (o_id ord), n_createdAt = now\<rparr>"
    and d': "d' = d2\<lparr>notifications := notifications d2 @ [n],
                     notification_seq := notification_seq d2 + 1\<rparr>"
    by (auto simp: tx_notification_create_def Let_def split: if_splits)
  have fl: "\<forall>k\<le>Suc (length lines). \<not> faults k"
  proof (intro allI impI)
    fix k assume k: "k \<le> Suc (length lines)"
    show "\<not> faults k"
    proof (cases "k = 0 \<or> k = Suc (length lines)")
      case True
      with f0 f2 show ?thesis by auto
    next
      case False
      with k obtain j where "k = 1 + j" "j < length lines"
        by (cases k) auto
      with f1 show ?thesis by blast
    qed
  qed
  have "d' = d\<lparr>orders := orders d @ [ord], order_seq := order_seq d + 1,
                   orderItems := orderItems d @ rows,
                   orderItem_seq := orderItem_seq d + int (length rows),
                   notifications := notifications d @ [n],
                   notification_seq := notification_seq d + 1\<rparr>"
    by (simp add: d' d2 d1)
  moreover have "n = \<lparr>n_id = notification_seq d, n_userId = uid,
                n_title = ''Pedido confirmado'',
                n_message = confirmed_message (order_seq d), n_type = ORDER,
                n_isRead = False, n_orderId = Some (order_seq d), n_createdAt = now\<rparr>"
    by (simp add: n d2 d1 oid)
  ultimately show ?thesis
    using loc pm ord rows fl oid by auto
qed


lemma createOrder_cases:
  "createOrder faults now user body d =
     (case items body of
        None \<Rightarrow> (Inl NO_ITEMS_IN_ORDER, d)
      | Some its \<Rightarrow>
          if its = [] then (Inl NO_ITEMS_IN_ORDER, d)
          else
            (case createOrder_loop d its (Fin 0) [] of
               Inl e \<Rightarrow> (Inl e, d)
             | Inr (subtotal, lines) \<Rightarrow>
                 if js_lt subtotal (Fin 2) then (Inl MINIMUM_ORDER_NOT_MET, d)
                 else
                   (case createOrder_tx faults now (userId user) body lines subtotal (Fin 1)
                           (js_add subtotal (Fin 1)) d of
                      None \<Rightarrow> (Inl ORDER_CREATE_ERROR, d)
                    | Some (order, d') \<Rightarrow>
                        (Inr (map_option (include_orderItems d')
                                (findUnique_order d' (o_id order))), d'))))"
  by (simp add: createOrder_def validationResult_def post_orders_validation_def
      transaction_def Let_def split: option.splits sum.splits prod.splits)



lemma createOrder_outcome:
  "(\<exists>e. createOrder faults now user body d = (Inl e, d))
    \<or> (\<exists>its s lines loc pm ord rows n resp.
          items body = Some its \<and> its \<noteq> []
        \<and> createOrder_loop d its (Fin 0) [] = Inr (s, lines) \<and> \<not> js_lt s (Fin 2)
        \<and> ord = \<lparr>o_id = order_seq d, o_userId = userId user, o_status = PENDING,
                  o_deliveryLocation = loc, o_paymentMethod = pm, o_subtotal = s,
                  o_deliveryFee = Fin 1, o_total = js_add s (Fin 1),
                  o_notes = req_notes body, o_createdAt = now, o_updatedAt = now\<rparr>
        \<and> n = \<lparr>n_id = notification_seq d, n_userId = userId user,
                n_title = ''Pedido confirmado'',
                n_message = confirmed_message (order_seq d), n_type = ORDER,
                n_isRead = False, n_orderId = Some (order_seq d), n_createdAt = now\<rparr>
        \<and> list_all2 (stores (order_seq d)) lines rows
        \<and> createOrder faults now user body d =
            (Inr resp,
             d\<lparr>orders := orders d @ [ord], order_seq := order_seq d + 1,
               orderItems := orderItems d @ rows,
               orderItem_seq := orderItem_seq d + int (length rows),
               notifications := notifications d @ [n],
               notification_seq := notification_seq d + 1\<rparr>)
        \<and> (\<forall>k\<le>Suc (length its). \<not> faults k))"
  (is "?E \<or> ?S")
proof (cases ?E)
  case True
  then show ?thesis ..
next
  case False
  then obtain its where its0: "items body = Some its"
    by (cases "items body") (auto simp: createOrder_cases)
  with False have "its \<noteq> []"
    by (auto simp: createOrder_cases)
  with its0 have its: "items body = Some its" "its \<noteq> []"
    by simp_all
  with False obtain s lines where
    loop: "createOrder_loop d its (Fin 0) [] = Inr (s, lines)"
    by (cases "createOrder_loop d its (Fin 0) []") (auto simp: createOrder_cases)
  with False its have min: "\<not> js_lt s (Fin 2)"
    by (auto simp: createOrder_cases)
  with False its loop obtain ord d' where
    tx: "createOrder_tx faults now (userId user) body lines s (Fin 1)
           (js_add s (Fin 1)) d = Some (ord, d')"
    by (cases "createOrder_tx faults now (userId user) body lines s (Fin 1)
           (js_add s (Fin 1)) d") (auto simp: createOrder_cases)
  from loop have len: "length lines = length its"
    by (auto simp: createOrder_loop_Inr list_all2_lengthD)
  from createOrder_tx_Some [OF tx] obtain loc pm rows n where
    ord: "ord = \<lparr>o_id = order_seq d, o_userId = userId user, o_status = PENDING,
                o_deliveryLocation = loc, o_paymentMethod = pm, o_subtotal = s,
                o_deliveryFee = Fin 1, o_total = js_add s (Fin 1),
                o_notes = req_notes body, o_createdAt = now, o_updatedAt = now\<rparr>"
    and n: "n = \<lparr>n_id = notification_seq d, n_userId = userId user,
              n_title = ''Pedido confirmado'',
              n_message = confirmed_message (order_seq d), n_type = ORDER,
              n_isRead = False, n_orderId = Some (order_seq d), n_createdAt = now\<rparr>"
    and rows: "list_all2 (stores (order_seq d)) lines rows"
    and d': "d' = d\<lparr>orders := orders d @ [ord], order_seq := order_seq d + 1,
                 orderItems := orderItems d @ rows,
                 orderItem_seq := orderItem_seq d + int (length rows),
                 notifications := notifications d @ [n],
                 notification_seq := notification_seq d + 1\<rparr>"
    and fl: "\<forall>k\<le>Suc (length lines). \<not> faults k"
    by blast
  define resp where
    "resp = map_option (include_orderItems d') (findUnique_order d' (o_id ord))"
  from its loop min tx have "createOrder faults now user body d = (Inr resp, d')"
    by (simp add: createOrder_cases resp_def)
  then have res: "createOrder faults now user body d =
            (Inr resp,
             d\<lparr>orders := orders d @ [ord], order_seq := order_seq d + 1,
               orderItems := orderItems d @ rows,
               orderItem_seq := orderItem_seq d + int (length rows),
               notifications := notifications d @ [n],
               notification_seq := notification_seq d + 1\<rparr>)"
    unfolding d' .
  from fl len have fl': "\<forall>k\<le>Suc (length its). \<not> faults k"
    by simp
  from its loop min ord n rows res fl' have ?S
    by blast
  then show ?thesis ..
qed

lemma createOrder_Inr:
  assumes "createOrder faults now user body d = (Inr resp, d')"
  shows "\<exists>its lines rows ord.
           items body = Some its
         \<and> list_all2 (priced_as d) its lines
         \<and> list_all2 (stores (order_seq d)) lines rows
         \<and> orders d' = orders d @ [ord] \<and> orderItems d' = orderItems d @ rows
         \<and> o_subtotal ord = foldl js_add (Fin 0) (map item_subtotal lines)
         \<and> o_deliveryFee ord = Fin 1
         \<and> o_total ord = js_add (o_subtotal ord) (Fin 1)"
  using createOrder_outcome [of faults now user body d]
proof (elim disjE exE conjE)
  fix e
  assume "createOrder faults now user body d = (Inl e, d)"
  with assms show ?thesis by simp
next
  fix its s lines loc pm ord rows n resp0
  assume its: "items body = Some its"
    and loop: "createOrder_loop d its (Fin 0) [] = Inr (s, lines)"
    and ord: "ord = \<lparr>o_id = order_seq d, o_userId = userId user, o_status = PENDING,
                  o_deliveryLocation = loc, o_paymentMethod = pm, o_subtotal = s,
                  o_deliveryFee = Fin 1, o_total = js_add s (Fin 1),
                  o_notes = req_notes body, o_createdAt = now, o_updatedAt = now\<rparr>"
    and rows: "list_all2 (stores (order_seq d)) lines rows"
    and res: "createOrder faults now user body d =
            (Inr resp0,
             d\<lparr>orders := orders d @ [ord], order_seq := order_seq d + 1,
               orderItems := orderItems d @ rows,
               orderItem_seq := orderItem_seq d + int (length rows),
               notifications := notifications d @ [n],
               notification_seq := notification_seq d + 1\<rparr>)"
  from res assms have d': "d' = d\<lparr>orders := orders d @ [ord], order_seq := order_seq d + 1,
               orderItems := orderItems d @ rows,
               orderItem_seq := orderItem_seq d + int (length rows),
               notifications := notifications d @ [n],
               notification_seq := notification_seq d + 1\<rparr>"
    by simp
  from loop have p: "list_all2 (priced_as d) its lines"
    and s: "s = foldl js_add (Fin 0) (map item_subtotal lines)"
    by (auto simp: createOrder_loop_Inr)
  have "orders d' = orders d @ [ord]" "orderItems d' = orderItems d @ rows"
    by (simp_all add: d')
  moreover have "o_deliveryFee ord = Fin 1" "o_total ord = js_add (o_subtotal ord) (Fin 1)"
    "o_subtotal ord = foldl js_add (Fin 0) (map item_subtotal lines)"
    by (simp_all add: ord s)
  ultimately show ?thesis
    using its p rows by blast
qed



text \<open>
  C3. \<open>createOrder\<close> either answers an error and leaves the store as it was, or it
  answers the order and the store has gained exactly: one order row, of status
  \<open>PENDING\<close>; one order item row for each computed line, in their order; and one
  notification row titled "Pedido confirmado" that refers to the new order. The second
  case needs every write to be accepted: when the store rejects any of the writes, the
  answer is an error and no row of the three kinds is visible.
\<close>

theorem createOrder_all_or_nothing:
  "((\<exists>e. createOrder faults now user body d = (Inl e, d))
    \<or> (\<exists>its s lines ord rows n resp.
          items body = Some its
        \<and> createOrder_loop d its (Fin 0) [] = Inr (s, lines)
        \<and> createOrder faults now user body d =
            (Inr resp,
             d\<lparr>orders := orders d @ [ord], order_seq := order_seq d + 1,
               orderItems := orderItems d @ rows,
               orderItem_seq := orderItem_seq d + int (length rows),
               notifications := notifications d @ [n],
               notification_seq := notification_seq d + 1\<rparr>)
        \<and> o_status ord = PENDING \<and> o_userId ord = userId user
        \<and> list_all2 (stores (o_id ord)) lines rows
        \<and> n_userId n = userId user \<and> n_title n = ''Pedido confirmado''
        \<and> n_message n = confirmed_message (o_id ord) \<and> n_type n = ORDER
        \<and> n_orderId n = Some (o_id ord)
        \<and> (\<forall>k\<le>Suc (length its). \<not> faults k)))
   \<and> (items body = Some its \<and> k \<le> Suc (length its) \<and> faults k \<longrightarrow>
        (\<exists>e. createOrder faults now user body d = (Inl e, d)))"
proof -
  from createOrder_outcome [of faults now user body d]
  have main: "(\<exists>e. createOrder faults now user body d = (Inl e, d))
    \<or> (\<exists>its s lines ord rows n resp.
          items body = Some its
        \<and> createOrder_loop d its (Fin 0) [] = Inr (s, lines)
        \<and> createOrder faults now user body d =
            (Inr resp,
             d\<lparr>orders := orders d @ [ord], order_seq := order_seq d + 1,
               orderItems := orderItems d @ rows,
               orderItem_seq := orderItem_seq d + int (length rows),
               notifications := notifications d @ [n],
               notification_seq := notification_seq d + 1\<rparr>)
        \<and> o_status ord = PENDING \<and> o_userId ord = userId user
        \<and> list_all2 (stores (o_id ord)) lines rows
        \<and> n_userId n = userId user \<and> n_title n = ''Pedido confirmado''
        \<and> n_message n = confirmed_message (o_id ord) \<and> n_type n = ORDER
        \<and> n_orderId n = Some (o_id ord)
        \<and> (\<forall>k\<le>Suc (length its). \<not> faults k))"
  proof (elim disjE exE conjE)
    fix e assume "createOrder faults now user body d = (Inl e, d)"
    then show ?thesis by blast
  next
    fix its s lines loc pm ord rows n resp
    assume a: "items body = Some its"
      "createOrder_loop d its (Fin 0) [] = Inr (s, lines)"
      "ord = \<lparr>o_id = order_seq d, o_userId = userId user, o_status = PENDING,
                  o_deliveryLocation = loc, o_paymentMethod = pm, o_subtotal = s,
                  o_deliveryFee = Fin 1, o_total = js_add s (Fin 1),
                  o_notes = req_notes body, o_createdAt = now, o_updatedAt = now\<rparr>"
      "n = \<lparr>n_id = notification_seq d, n_userId = userId user,
                n_title = ''Pedido confirmado'',
                n_message = confirmed_message (order_seq d), n_type = ORDER,
                n_isRead = False, n_orderId = Some (order_seq d), n_createdAt = now\<rparr>"
      "list_all2 (stores (order_seq d)) lines rows"
      "createOrder faults now user body d =
            (Inr resp,
             d\<lparr>orders := orders d @ [ord], order_seq := order_seq d + 1,
               orderItems := orderItems d @ rows,
               orderItem_seq := orderItem_seq d + int (length rows),
               notifications := notifications d @ [n],
               notification_seq := notification_seq d + 1\<rparr>)"
      "\<forall>k\<le>Suc (length its). \<not> faults k"
    have "\<exists>its s lines ord rows n resp.
          items body = Some its
        \<and> createOrder_loop d its (Fin 0) [] = Inr (s, lines)
        \<and> createOrder faults now user body d =
            (Inr resp,
             d\<lparr>orders := orders d @ [ord], order_seq := order_seq d + 1,
               orderItems := orderItems d @ rows,
               orderItem_seq := orderItem_seq d + int (length rows),
               notifications := notifications d @ [n],
               notification_seq := notification_seq d + 1\<rparr>)
        \<and> o_status ord = PENDING \<and> o_userId ord = userId user
        \<and> list_all2 (stores (o_id ord)) lines rows
        \<and> n_userId n = userId user \<and> n_title n = ''Pedido confirmado''
        \<and> n_message n = confirmed_message (o_id ord) \<and> n_type n = ORDER
        \<and> n_orderId n = Some (o_id ord)
        \<and> (\<forall>k\<le>Suc (length its). \<not> faults k)"
      using a
      by (intro exI [of _ its] exI [of _ s] exI [of _ lines] exI [of _ ord] exI [of _ rows]
          exI [of _ n] exI [of _ resp]) simp
    then show ?thesis ..
  qed
  have rej: "\<exists>e. createOrder faults now user body d = (Inl e, d)"
    if "items body = Some its \<and> k \<le> Suc (length its) \<and> faults k"
    using main that by auto
  from main rej show ?thesis by blast
qed

theorem createOrder_all_or_nothing_witness:
  "(\<exists>ord rows n resp.
      createOrder (\<lambda>k. False) 5 ex_user (ex_body [ex_line 1 (Some 2)]) (ex_db []) =
        (Inr resp,
         (ex_db [])\<lparr>orders := [ord], order_seq := 2, orderItems := rows,
           orderItem_seq := 1 + int (length rows), notifications := [n],
           notification_seq := 2\<rparr>)
    \<and> o_status ord = PENDING \<and> length rows = 1 \<and> n_title n = ''Pedido confirmado''
    \<and> n_orderId n = Some (o_id ord))
   \<and> items (ex_body [ex_line 1 (Some 2)]) = Some [ex_line 1 (Some 2)]
   \<and> (\<exists>e. createOrder (\<lambda>k. k = 2) 5 ex_user (ex_body [ex_line 1 (Some 2)]) (ex_db [])
           = (Inl e, ex_db []))"
proof -
  let ?body = "ex_body [ex_line 1 (Some 2)]"
  have h1: "items ?body = Some [ex_line 1 (Some 2)]"
    by (simp add: ex_body_def)
  have ok: "case fst (createOrder (\<lambda>k. False) 5 ex_user ?body (ex_db [])) of
              Inl e \<Rightarrow> False | Inr r \<Rightarrow> True"
    by code_simp
  have e: "orders (ex_db []) = []" "orderItems (ex_db []) = []" "notifications (ex_db []) = []"
    "order_seq (ex_db []) = 1" "orderItem_seq (ex_db []) = 1" "notification_seq (ex_db []) = 1"
    by (simp_all add: ex_db_def)
  note t = createOrder_all_or_nothing [of _ 5 ex_user ?body "ex_db []" "[ex_line 1 (Some 2)]"]
  from t [of "\<lambda>k. False" 0] ok obtain its s lines ord rows n resp where
    a: "items ?body = Some its"
      "createOrder_loop (ex_db []) its (Fin 0) [] = Inr (s, lines)"
      "createOrder (\<lambda>k. False) 5 ex_user ?body (ex_db []) =
            (Inr resp,
             (ex_db [])\<lparr>orders := orders (ex_db []) @ [ord],
               order_seq := order_seq (ex_db []) + 1,
               orderItems := orderItems (ex_db []) @ rows,
               orderItem_seq := orderItem_seq (ex_db []) + int (length rows),
               notifications := notifications (ex_db []) @ [n],
               notification_seq := notification_seq (ex_db []) + 1\<rparr>)"
      "o_status ord = PENDING" "list_all2 (stores (o_id ord)) lines rows"
      "n_title n = ''Pedido confirmado''" "n_orderId n = Some (o_id ord)"
    by (elim conjE disjE exE) auto
  from a(1) h1 have "its = [ex_line 1 (Some 2)]"
    by simp
  moreover from a(2) have "length lines = length its"
    by (auto simp: createOrder_loop_Inr list_all2_lengthD)
  ultimately have "length lines = 1"
    by simp
  with a(5) have len: "length rows = 1"
    by (auto dest: list_all2_lengthD)
  from a(3) e have res: "createOrder (\<lambda>k. False) 5 ex_user ?body (ex_db []) =
        (Inr resp,
         (ex_db [])\<lparr>orders := [ord], order_seq := 2, orderItems := rows,
           orderItem_seq := 1 + int (length rows), notifications := [n],
           notification_seq := 2\<rparr>)"
    by simp
  from res a(4,6,7) len have g1: "\<exists>ord rows n resp.
      createOrder (\<lambda>k. False) 5 ex_user ?body (ex_db []) =
        (Inr resp,
         (ex_db [])\<lparr>orders := [ord], order_seq := 2, orderItems := rows,
           orderItem_seq := 1 + int (length rows), notifications := [n],
           notification_seq := 2\<rparr>)
    \<and> o_status ord = PENDING \<and> length rows = 1 \<and> n_title n = ''Pedido confirmado''
    \<and> n_orderId n = Some (o_id ord)"
    by blast
  from t [of "\<lambda>k. k = 2" 2] h1
  have g2: "\<exists>e. createOrder (\<lambda>k. k = 2) 5 ex_user ?body (ex_db []) = (Inl e, ex_db [])"
    by simp
  from g1 h1 g2 show ?thesis
    by blast
qed



section \<open>Quantities\<close>

text \<open>
  C9, as the code has it. For every line of a request whose order is created, the
  quantity of the order item written for the line is the quantity of the line when the
  line has one and it is not zero, and 1 when the line has none or has zero; so it is
  never zero, and it is negative when the line asks for a negative quantity.
\<close>

theorem createOrder_persists_quantities:
  assumes "createOrder faults now user body d = (Inr resp, d')"
    and "items body = Some its"
  shows "\<exists>rows. orderItems d' = orderItems d @ rows
           \<and> list_all2
               (\<lambda>it row. oi_quantity row \<noteq> 0 \<and> oi_quantity row =
                  (case quantity it of None \<Rightarrow> 1 | Some q \<Rightarrow> if q = 0 then 1 else q))
               its rows"
proof -
  from createOrder_Inr [OF assms(1)] assms(2) obtain lines rows where
    p: "list_all2 (priced_as d) its lines"
    and st: "list_all2 (stores (order_seq d)) lines rows"
    and r: "orderItems d' = orderItems d @ rows"
    by auto
  have "list_all2
               (\<lambda>it row. oi_quantity row \<noteq> 0 \<and> oi_quantity row =
                  (case quantity it of None \<Rightarrow> 1 | Some q \<Rightarrow> if q = 0 then 1 else q))
               its rows"
  proof (rule list_all2_trans [OF _ p st])
    fix it li row
    assume "priced_as d it li" and "stores (order_seq d) li row"
    then show "oi_quantity row \<noteq> 0 \<and> oi_quantity row =
                  (case quantity it of None \<Rightarrow> 1 | Some q \<Rightarrow> if q = 0 then 1 else q)"
      by (auto simp: priced_as_def stores_def process_item_def line_quantity_def Let_def
          split: option.splits)
  qed
  with r show ?thesis by auto
qed

theorem createOrder_persists_quantities_witness:
  "items (ex_body [ex_line 1 (Some 2), ex_line 2 None]) = Some [ex_line 1 (Some 2), ex_line 2 None]
   \<and> (case fst (createOrder (\<lambda>k. False) 5 ex_user
                  (ex_body [ex_line 1 (Some 2), ex_line 2 None]) (ex_db [])) of
         Inl e \<Rightarrow> False | Inr r \<Rightarrow> True)
   \<and> map oi_quantity (orderItems (snd (createOrder (\<lambda>k. False) 5 ex_user
        (ex_body [ex_line 1 (Some 2), ex_line 2 None]) (ex_db [])))) = [2, 1]"
proof -
  let ?its = "[ex_line 1 (Some 2), ex_line 2 None]"
  let ?run = "createOrder (\<lambda>k. False) 5 ex_user (ex_body ?its) (ex_db [])"
  have h2: "items (ex_body ?its) = Some ?its"
    by (simp add: ex_body_def)
  have ok: "case fst ?run of Inl e \<Rightarrow> False | Inr r \<Rightarrow> True"
    by code_simp
  then obtain resp where "fst ?run = Inr resp"
    by (cases "fst ?run") auto
  then have h1: "?run = (Inr resp, snd ?run)"
    by (cases ?run) simp
  from createOrder_persists_quantities [OF h1 h2] obtain rows where
    r: "orderItems (snd ?run) = orderItems (ex_db []) @ rows"
    and q: "list_all2
               (\<lambda>it row. oi_quantity row \<noteq> 0 \<and> oi_quantity row =
                  (case quantity it of None \<Rightarrow> 1 | Some q \<Rightarrow> if q = 0 then 1 else q))
               ?its rows"
    by blast
  from q have "map oi_quantity rows = [2, 1]"
    by (auto simp: list_all2_Cons1 ex_line_def)
  with r have "map oi_quantity (orderItems (snd ?run)) = [2, 1]"
    by (simp add: ex_db_def)
  with h2 ok show ?thesis by simp
qed

theorem createOrder_quantity_counterexample:
  "map quantity [ex_line 2 (Some (- 1)), ex_line 2 (Some 5), ex_line 2 (Some 0)]
     = [Some (- 1), Some 5, Some 0]
   \<and> (case createOrder (\<lambda>k. False) 5 ex_user
              (ex_body [ex_line 2 (Some (- 1)), ex_line 2 (Some 5), ex_line 2 (Some 0)])
              (ex_db []) of
         (Inl e, d') \<Rightarrow> False
       | (Inr r, d') \<Rightarrow>
           map oi_quantity (orderItems d') = [- 1, 5, 1]
           \<and> \<not> list_all2
                 (\<lambda>it row. 0 < oi_quantity row
                    \<and> (case quantity it of None \<Rightarrow> oi_quantity row = 1
                        | Some q \<Rightarrow> oi_quantity row = q))
                 [ex_line 2 (Some (- 1)), ex_line 2 (Some 5), ex_line 2 (Some 0)]
                 (orderItems d'))"
  by code_simp

section \<open>The shape of the request\<close>

lemma createOrder_loop_error:
  "createOrder_loop d its s acc = Inl e \<Longrightarrow>
     (\<exists>i. e = PRODUCT_NOT_FOUND i) \<or> (\<exists>n. e = PRODUCT_NOT_AVAILABLE n)"
  by (induction its arbitrary: s acc) (auto split: option.splits if_splits)

text \<open>
  C7, at requests that lack the delivery location and the payment method, or name a
  payment method outside the enum: the validation result is empty, the products are
  looked up and the lines priced, and the answer is \<open>PRODUCT_NOT_FOUND\<close> (first
  request) or, when the lines are in order, the failure of the write
  (\<open>ORDER_CREATE_ERROR\<close>, second and third request). No request at all is answered
  with the validation error.
\<close>

theorem createOrder_shape_not_validated:
  "validationResult post_orders_validation (ex_unshaped [ex_line 9 None]) = []
   \<and> createOrder (\<lambda>k. False) 5 ex_user (ex_unshaped [ex_line 9 None]) (ex_db [])
       = (Inl (PRODUCT_NOT_FOUND 9), ex_db [])
   \<and> createOrder (\<lambda>k. False) 5 ex_user (ex_unshaped [ex_line 1 (Some 2)]) (ex_db [])
       = (Inl ORDER_CREATE_ERROR, ex_db [])
   \<and> createOrder (\<lambda>k. False) 5 ex_user
        ((ex_body [ex_line 1 (Some 2)])\<lparr>paymentMethod := Some ''BITCOIN''\<rparr>) (ex_db [])
       = (Inl ORDER_CREATE_ERROR, ex_db [])
   \<and> (\<forall>faults now user body d es.
         fst (createOrder faults now user body d) \<noteq> Inl (VALIDATION_FAILED es))"
proof -
  have "validationResult post_orders_validation (ex_unshaped [ex_line 9 None]) = []"
    by (simp add: validationResult_def post_orders_validation_def)
  moreover have "createOrder (\<lambda>k. False) 5 ex_user (ex_unshaped [ex_line 9 None]) (ex_db [])
       = (Inl (PRODUCT_NOT_FOUND 9), ex_db [])"
    by code_simp
  moreover have "createOrder (\<lambda>k. False) 5 ex_user (ex_unshaped [ex_line 1 (Some 2)]) (ex_db [])
       = (Inl ORDER_CREATE_ERROR, ex_db [])"
    by code_simp
  moreover have "createOrder (\<lambda>k. False) 5 ex_user
        ((ex_body [ex_line 1 (Some 2)])\<lparr>paymentMethod := Some ''BITCOIN''\<rparr>) (ex_db [])
       = (Inl ORDER_CREATE_ERROR, ex_db [])"
    by code_simp
  moreover have "fst (createOrder faults now user body d) \<noteq> Inl (VALIDATION_FAILED es)"
    for faults now user body d es
    by (auto simp: createOrder_cases split: option.splits sum.splits prod.splits
        dest: createOrder_loop_error)
  ultimately show ?thesis by blast
qed

section \<open>The money columns after creation\<close>















section \<open>Binary floating point in the pricing\<close>







end
